theory Spec2Isabelle
  imports Complex_Main
begin

section \<open>Numbers\<close>

subsection \<open>JavaScript numbers and array reads\<close>

text \<open>
  The entries of a net-value series are JavaScript numbers (the component compares them
  with \<^verbatim>\<open>=== 0\<close> and \<^verbatim>\<open>> 0\<close>). A number is \<open>NaN\<close>, an infinity or a finite
  value; a finite value is represented by the decimal value that \<^verbatim>\<open>new BigNumber(v)\<close>
  reads from it, and the two zeros of IEEE 754 are one value (\<^verbatim>\<open>-0 === 0\<close> holds),
  so that an entry that is the negative zero is read as zero.
  Reading an array beyond its length gives \<^verbatim>\<open>undefined\<close>, so the result of an
  array read is a \<open>jsvalue\<close>.
\<close>

datatype jsnumber = NaN | PosInfinity | NegInfinity | Finite rat

datatype jsvalue = Undefined | Number jsnumber

definition at_index :: "jsnumber list \<Rightarrow> nat \<Rightarrow> jsvalue" where
  \<comment> \<open>\<^verbatim>\<open>data[i]\<close>\<close>
  "at_index data i = (if i < length data then Number (data ! i) else Undefined)"

fun strictEqualsZero :: "jsvalue \<Rightarrow> bool" where
  \<comment> \<open>\<^verbatim>\<open>v === 0\<close>\<close>
  "strictEqualsZero (Number (Finite r)) = (r = 0)"
| "strictEqualsZero _ = False"

fun greaterThanZero :: "jsnumber \<Rightarrow> bool" where
  \<comment> \<open>\<^verbatim>\<open>v > 0\<close>: false for \<open>NaN\<close>\<close>
  "greaterThanZero (Finite r) = (0 < r)"
| "greaterThanZero PosInfinity = True"
| "greaterThanZero _ = False"

subsection \<open>BigNumber\<close>

text \<open>
  Values of the arbitrary-precision decimal library (bignumber.js) in its default
  configuration: \<^verbatim>\<open>DECIMAL_PLACES = 20\<close>, \<^verbatim>\<open>ROUNDING_MODE = ROUND_HALF_UP\<close>, groups of
  three digits separated by a comma, a decimal point, errors reported as \<open>NaN\<close> rather
  than thrown (\<^verbatim>\<open>DEBUG\<close> unset). A value is \<open>NaN\<close>, a signed infinity, a finite
  rational, or the negative zero, which the library keeps apart from zero: \<open>BFinite 0\<close>
  is the positive zero and \<open>BNegZero\<close> the negative one. The sign of a value is what
  \<^verbatim>\<open>isNegative\<close> reads, so the negative zero is negative.
\<close>

datatype bignumber = BNaN | BInfinity bool | BFinite rat | BNegZero

fun bigNumberify :: "jsvalue \<Rightarrow> bignumber" where
  \<comment> \<open>the helper is declared outside the component; by its name and its use it is
     \<^verbatim>\<open>new BigNumber(value)\<close>, for which \<^verbatim>\<open>undefined\<close> is not a number\<close>
  "bigNumberify Undefined = BNaN"
| "bigNumberify (Number NaN) = BNaN"
| "bigNumberify (Number PosInfinity) = BInfinity False"
| "bigNumberify (Number NegInfinity) = BInfinity True"
| "bigNumberify (Number (Finite r)) = BFinite r"

fun isFinite :: "bignumber \<Rightarrow> bool" where
  "isFinite (BFinite r) = True"
| "isFinite BNegZero = True"
| "isFinite _ = False"

fun isNegative :: "bignumber \<Rightarrow> bool" where
  \<comment> \<open>the sign is negative\<close>
  "isNegative (BFinite r) = (r < 0)"
| "isNegative BNegZero = True"
| "isNegative (BInfinity neg) = neg"
| "isNegative BNaN = False"

fun finiteValue :: "bignumber \<Rightarrow> rat option" where
  \<comment> \<open>the number a finite value stands for\<close>
  "finiteValue (BFinite r) = Some r"
| "finiteValue BNegZero = Some 0"
| "finiteValue _ = None"

fun valueOf :: "bignumber \<Rightarrow> rat" where
  \<comment> \<open>the same, for the arithmetic on finite values\<close>
  "valueOf (BFinite r) = r"
| "valueOf _ = 0"

definition signedZero :: "bool \<Rightarrow> bignumber" where
  "signedZero negative = (if negative then BNegZero else BFinite 0)"

text \<open>
  \<^verbatim>\<open>minus\<close>: operands of different sign are added in magnitude and keep the sign of
  the first; with equal signs, a zero operand gives the other one (negated when it is
  the second), and two zeros or two equal values give the positive zero.
\<close>

fun minusBN :: "bignumber \<Rightarrow> bignumber \<Rightarrow> bignumber" where
  "minusBN BNaN y = BNaN"
| "minusBN x BNaN = BNaN"
| "minusBN (BInfinity a) (BInfinity b) = (if a = b then BNaN else BInfinity a)"
| "minusBN (BInfinity a) y = BInfinity a"
| "minusBN x (BInfinity b) = BInfinity (\<not> b)"
| "minusBN (BFinite r) (BFinite q) = BFinite (r - q)"
| "minusBN (BFinite r) BNegZero = BFinite r"
| "minusBN BNegZero (BFinite q) = (if q = 0 then BNegZero else BFinite (- q))"
| "minusBN BNegZero BNegZero = BFinite 0"

definition roundHalfUp :: "nat \<Rightarrow> rat \<Rightarrow> rat" where
  \<comment> \<open>to \<open>dp\<close> decimal places, ties away from zero\<close>
  "roundHalfUp dp r =
     sgn r * of_int \<lfloor>\<bar>r\<bar> * 10 ^ dp + 1 / 2\<rfloor> / 10 ^ dp"

definition DECIMAL_PLACES :: nat where
  "DECIMAL_PLACES = 20"

text \<open>
  \<^verbatim>\<open>div\<close> and \<^verbatim>\<open>multipliedBy\<close>: the sign of the result is the product of the
  signs, also for a zero result. The quotient of two finite values is rounded to
  \<open>DECIMAL_PLACES\<close>; the product is exact.
\<close>

fun divBN :: "bignumber \<Rightarrow> bignumber \<Rightarrow> bignumber" where
  "divBN BNaN y = BNaN"
| "divBN x BNaN = BNaN"
| "divBN (BInfinity a) (BInfinity b) = BNaN"
| "divBN (BInfinity a) y = BInfinity (a \<noteq> isNegative y)"
| "divBN x (BInfinity b) = signedZero (isNegative x \<noteq> b)"
| "divBN x y =
     (let negative = (isNegative x \<noteq> isNegative y)
      in if valueOf y = 0
         then (if valueOf x = 0 then BNaN else BInfinity negative)
         else (let q = roundHalfUp DECIMAL_PLACES (valueOf x / valueOf y)
               in if q = 0 then signedZero negative else BFinite q))"

fun multipliedBy :: "bignumber \<Rightarrow> bignumber \<Rightarrow> bignumber" where
  "multipliedBy BNaN y = BNaN"
| "multipliedBy x BNaN = BNaN"
| "multipliedBy (BInfinity a) (BInfinity b) = BInfinity (a \<noteq> b)"
| "multipliedBy (BInfinity a) y =
     (if valueOf y = 0 then BNaN else BInfinity (a \<noteq> isNegative y))"
| "multipliedBy x (BInfinity b) =
     (if valueOf x = 0 then BNaN else BInfinity (isNegative x \<noteq> b))"
| "multipliedBy x y =
     (let p = valueOf x * valueOf y
      in if p = 0 then signedZero (isNegative x \<noteq> isNegative y) else BFinite p)"

section \<open>The net-worth panel\<close>

subsection \<open>Starting value\<close>

text \<open>
  The loop of \<^verbatim>\<open>startingValue\<close>: from index \<open>i\<close> on, the first entry that is
  \<^verbatim>\<open>> 0\<close> replaces \<open>start\<close> and ends the loop; when the index reaches the length,
  \<open>start\<close> is returned as it was.
\<close>

function scanForward :: "jsnumber list \<Rightarrow> nat \<Rightarrow> jsvalue \<Rightarrow> jsvalue" where
  "scanForward data i start =
     (if i < length data
      then (if greaterThanZero (data ! i) then Number (data ! i)
            else scanForward data (Suc i) start)
      else start)"
  by pat_completeness auto
termination
  by (relation "measure (\<lambda>(data, i, start). length data - i)") auto

declare scanForward.simps [simp del]

definition startingValue :: "jsnumber list \<Rightarrow> bignumber" where
  "startingValue data =
     (let start = at_index data 0
      in bigNumberify (if strictEqualsZero start then scanForward data 1 start else start))"

subsection \<open>Formatting a BigNumber\<close>

text \<open>
  \<^verbatim>\<open>toFormat(dp)\<close> of the library: the value rounded to \<open>dp\<close> decimal places
  (\<^verbatim>\<open>toFixed\<close>), the integer digits in groups of three from the right, a minus sign
  in front of a negative value (also when it rounds to zero, but not for the negative
  zero, which is printed as zero). \<open>NaN\<close> and the infinities are printed by name.
\<close>

definition digitChar :: "nat \<Rightarrow> char" where
  "digitChar d = ''0123456789'' ! d"

function natToString :: "nat \<Rightarrow> string" where
  "natToString n =
     (if n < 10 then [digitChar n] else natToString (n div 10) @ [digitChar (n mod 10)])"
  by pat_completeness auto
termination
  by (relation "measure (\<lambda>n. n)") auto

declare natToString.simps [simp del]

definition padStart :: "nat \<Rightarrow> string \<Rightarrow> string" where
  \<comment> \<open>zeros in front, up to the width\<close>
  "padStart width str = replicate (width - length str) CHR ''0'' @ str"

function groupFrom :: "string \<Rightarrow> nat \<Rightarrow> string" where
  \<comment> \<open>the loop \<^verbatim>\<open>for (; i < len; i += 3) intPart += ',' + intDigits.substr(i, 3)\<close>\<close>
  "groupFrom intDigits i =
     (if i < length intDigits
      then '','' @ take 3 (drop i intDigits) @ groupFrom intDigits (i + 3)
      else [])"
  by pat_completeness auto
termination
  by (relation "measure (\<lambda>(intDigits, i). length intDigits - i)") auto

declare groupFrom.simps [simp del]

definition groupDigits :: "string \<Rightarrow> string" where
  "groupDigits intDigits =
     (let len = length intDigits;
          i = (if len mod 3 = 0 then 3 else len mod 3)
      in take i intDigits @ groupFrom intDigits i)"

definition scaledCoefficient :: "nat \<Rightarrow> rat \<Rightarrow> nat" where
  \<comment> \<open>the digits of the magnitude rounded to \<open>dp\<close> places, as one natural number\<close>
  "scaledCoefficient dp r = nat \<lfloor>\<bar>r\<bar> * 10 ^ dp + 1 / 2\<rfloor>"

definition formatFinite :: "nat \<Rightarrow> rat \<Rightarrow> string" where
  "formatFinite dp r =
     (let c = scaledCoefficient dp r;
          intPart = groupDigits (natToString (c div 10 ^ dp));
          fractionPart = padStart dp (natToString (c mod 10 ^ dp))
      in (if r < 0 then ''-'' else []) @ intPart
           @ (if dp = 0 then [] else ''.'' @ fractionPart))"

fun toFormat :: "nat \<Rightarrow> bignumber \<Rightarrow> string" where
  "toFormat dp BNaN = ''NaN''"
| "toFormat dp (BInfinity neg) = (if neg then ''-Infinity'' else ''Infinity'')"
| "toFormat dp (BFinite r) = formatFinite dp r"
| "toFormat dp BNegZero = formatFinite dp 0"

text \<open>
  Reading a formatted text back as a number: an optional minus sign, the integer digits
  with their commas dropped, and the digits after the decimal point.
\<close>

definition digitValue :: "char \<Rightarrow> nat" where
  "digitValue c = of_char c - 48"

definition readDigits :: "string \<Rightarrow> nat" where
  "readDigits str = foldl (\<lambda>acc c. 10 * acc + digitValue c) 0 str"

definition decimalValue :: "string \<Rightarrow> rat" where
  "decimalValue str =
     (let negative = (take 1 str = ''-'');
          unsigned = filter (\<lambda>c. c \<noteq> CHR '','') (if negative then drop 1 str else str);
          intDigits = takeWhile (\<lambda>c. c \<noteq> CHR ''.'') unsigned;
          fraction = drop (Suc (length intDigits)) unsigned;
          magnitude = of_nat (readDigits intDigits)
            + of_nat (readDigits fraction) / 10 ^ length fraction
      in if negative then - magnitude else magnitude)"

subsection \<open>Delta, percentage, indicator\<close>

definition isLoading :: "bool \<Rightarrow> bool \<Rightarrow> bool" where
  \<comment> \<open>\<^verbatim>\<open>logicOr\<close> of the loading flags of the sections \<^verbatim>\<open>BLOCKCHAIN_ETH\<close> and
     \<^verbatim>\<open>BLOCKCHAIN_BTC\<close>\<close>
  "isLoading ethLoading btcLoading = (ethLoading \<or> btcLoading)"

definition balanceDelta :: "bignumber \<Rightarrow> jsnumber list \<Rightarrow> bignumber" where
  "balanceDelta totalNetWorth data = minusBN totalNetWorth (startingValue data)"

definition percentageRatio :: "bignumber \<Rightarrow> jsnumber list \<Rightarrow> bignumber" where
  \<comment> \<open>the local \<^verbatim>\<open>bigNumber\<close> of \<^verbatim>\<open>percentage\<close>\<close>
  "percentageRatio totalNetWorth data =
     multipliedBy (divBN (balanceDelta totalNetWorth data) (startingValue data)) (BFinite 100)"

definition percentage :: "bignumber \<Rightarrow> jsnumber list \<Rightarrow> string" where
  "percentage totalNetWorth data =
     (let bigNumber = percentageRatio totalNetWorth data
      in if isFinite bigNumber then toFormat 2 bigNumber else ''-'')"

definition indicator :: "bool \<Rightarrow> bool \<Rightarrow> bignumber \<Rightarrow> jsnumber list \<Rightarrow> string" where
  "indicator ethLoading btcLoading totalNetWorth data =
     (if isLoading ethLoading btcLoading then []
      else if isNegative (balanceDelta totalNetWorth data) then ''mdi-menu-down''
      else ''mdi-menu-up'')"

definition balanceClass :: "bool \<Rightarrow> bool \<Rightarrow> bignumber \<Rightarrow> jsnumber list \<Rightarrow> string" where
  "balanceClass ethLoading btcLoading totalNetWorth data =
     (if isLoading ethLoading btcLoading then ''rotki-grey lighten-3''
      else if isNegative (balanceDelta totalNetWorth data) then ''rotki-red lighten-1''
      else ''rotki-green'')"

subsection \<open>Font size of the total\<close>

definition removeChar :: "char \<Rightarrow> string \<Rightarrow> string" where
  \<comment> \<open>\<^verbatim>\<open>.replace(/c/g, '')\<close> for a single character \<open>c\<close>\<close>
  "removeChar c str = filter (\<lambda>x. x \<noteq> c) str"

definition fontDigits :: "bignumber \<Rightarrow> nat \<Rightarrow> nat" where
  \<comment> \<open>the local \<^verbatim>\<open>digits\<close>\<close>
  "fontDigits totalNetWorth floatingPrecision =
     length (removeChar CHR '','' (removeChar CHR ''.'' (toFormat floatingPrecision totalNetWorth)))"

definition fontScale :: "nat \<Rightarrow> rat" where
  \<comment> \<open>\<^verbatim>\<open>Math.min(1, 12 / digits)\<close>; \<^verbatim>\<open>12 / 0\<close> is \<^verbatim>\<open>Infinity\<close>, whose minimum with 1
     is 1\<close>
  "fontScale digits = (if digits = 0 then 1 else min 1 (12 / of_nat digits))"

definition adjustedTotalNetWorthFontSize :: "bignumber \<Rightarrow> nat \<Rightarrow> rat" where
  "adjustedTotalNetWorthFontSize totalNetWorth floatingPrecision =
     fontScale (fontDigits totalNetWorth floatingPrecision)"

subsection \<open>Time frame, mount hook and premium watcher\<close>

text \<open>
  Modelled from the spec: the enumerations \<^verbatim>\<open>TimeFramePeriod\<close> and
  \<^verbatim>\<open>TimeFramePersist\<close> are declared outside the component. A time-frame setting is a
  lookback window or the sentinel \<^verbatim>\<open>REMEMBER\<close>; of the windows the component names
  only \<^verbatim>\<open>TWO_WEEKS\<close>, the others are kept by their name.
\<close>

datatype TimeFramePeriod = TWO_WEEKS | OtherPeriod string

datatype TimeFrameSetting = Period TimeFramePeriod | REMEMBER

datatype error =
    AssertionError
  | RequestError int
  | ResponseError string
  | SchemaValidationError

text \<open>
  The stores the component reads and writes, with what the claims observe of them:
  the session settings store (\<open>timeframe\<close>), the frontend settings store
  (\<open>lastKnownTimeframe\<close>), the premium store, the session authentication store, the
  number of \<^verbatim>\<open>fetchNetValue\<close> calls issued to the statistics store and the number of
  them that have resolved, and the windows for which the component has asked the
  statistics store for the series (\<^verbatim>\<open>getNetValue\<close>), in order. The stores hold
  JavaScript values, so a \<open>timeframe\<close> is any time-frame setting.

  The watcher of the premium flag belongs to the framework: it remembers the value it
  saw last (\<open>watchedPremium\<close>, the flag's value when the watcher was set up or last
  ran), and a change of the flag queues its job (\<open>watcherQueued\<close>), which runs at the
  next flush of the scheduler.
\<close>

record stores =
  timeframe :: TimeFrameSetting
  lastKnownTimeframe :: TimeFrameSetting
  premium :: bool
  logged :: bool
  netValueFetches :: nat
  netValueResolved :: nat
  seriesRequests :: "TimeFrameSetting list"
  watchedPremium :: bool
  watcherQueued :: bool

definition assert :: "bool \<Rightarrow> error + unit" where
  \<comment> \<open>Modelled from the spec: the helper \<^verbatim>\<open>assert\<close> is not in the component; a failed
     assertion is a precondition violation, fatal to the current operation.\<close>
  "assert condition = (if condition then Inr () else Inl AssertionError)"

definition setTimeframe :: "TimeFrameSetting \<Rightarrow> stores \<Rightarrow> error + stores" where
  \<comment> \<open>an exception leaves the stores as they were; \<^verbatim>\<open>updateSetting\<close> is taken to
     succeed\<close>
  "setTimeframe val s =
     (case assert (val \<noteq> REMEMBER) of
        Inl e \<Rightarrow> Inl e
      | Inr _ \<Rightarrow> Inr ((s\<lparr>timeframe := val\<rparr>)\<lparr>lastKnownTimeframe := val\<rparr>))"

definition fetchNetValue :: "stores \<Rightarrow> stores" where
  \<comment> \<open>the call is issued; it resolves later\<close>
  "fetchNetValue s = s\<lparr>netValueFetches := Suc (netValueFetches s)\<rparr>"

definition resolveNetValue :: "stores \<Rightarrow> stores" where
  \<comment> \<open>one issued fetch resolves\<close>
  "resolveNetValue s =
     (if netValueResolved s < netValueFetches s
      then s\<lparr>netValueResolved := Suc (netValueResolved s)\<rparr>
      else s)"

definition premiumWatcher :: "stores \<Rightarrow> stores" where
  \<comment> \<open>the callback of \<^verbatim>\<open>watch(premium, ...)\<close>\<close>
  "premiumWatcher s = (if logged s then fetchNetValue s else s)"

definition setPremium :: "bool \<Rightarrow> stores \<Rightarrow> stores" where
  \<comment> \<open>an assignment to the premium flag: a new value queues the watcher's job, the
     callback does not run yet\<close>
  "setPremium p s =
     (if premium s = p then s else s\<lparr>premium := p, watcherQueued := True\<rparr>)"

definition setLogged :: "bool \<Rightarrow> stores \<Rightarrow> stores" where
  "setLogged l s = s\<lparr>logged := l\<rparr>"

definition flushWatchers :: "stores \<Rightarrow> stores" where
  \<comment> \<open>the scheduler's flush: a queued job reads the flag again, and calls the callback
     only when the value differs from the one it saw last\<close>
  "flushWatchers s =
     (if watcherQueued s
      then (let s1 = s\<lparr>watcherQueued := False\<rparr>
            in if premium s1 = watchedPremium s1 then s1
               else premiumWatcher (s1\<lparr>watchedPremium := premium s1\<rparr>))
      else s)"

datatype event = SetPremium bool | SetLogged bool | Flush

fun step :: "event \<Rightarrow> stores \<Rightarrow> stores" where
  "step (SetPremium p) s = setPremium p s"
| "step (SetLogged l) s = setLogged l s"
| "step Flush s = flushWatchers s"

fun run :: "event list \<Rightarrow> stores \<Rightarrow> stores" where
  "run [] s = s"
| "run (e # es) s = run es (step e s)"

definition timeframeData :: "stores \<Rightarrow> stores" where
  \<comment> \<open>the effect of evaluating \<^verbatim>\<open>timeframeData\<close>: the window of the current selection
     is resolved and the statistics store is asked for the series in it\<close>
  "timeframeData s = s\<lparr>seriesRequests := seriesRequests s @ [timeframe s]\<rparr>"

definition render :: "bool \<Rightarrow> bool \<Rightarrow> stores \<Rightarrow> stores" where
  \<comment> \<open>a render of the template: while loading, \<^verbatim>\<open>balanceClass\<close> returns before it
     reads the delta, and the indicator, the delta, the percentage and the chart are
     under \<^verbatim>\<open>v-if="!isLoading"\<close>; otherwise they read \<^verbatim>\<open>timeframeData\<close>\<close>
  "render ethLoading btcLoading s =
     (if isLoading ethLoading btcLoading then s else timeframeData s)"

definition onMounted :: "(TimeFrameSetting \<Rightarrow> bool) \<Rightarrow> stores \<Rightarrow> stores" where
  \<comment> \<open>\<^verbatim>\<open>isPeriodAllowed\<close> is declared outside the component and is a parameter\<close>
  "onMounted isPeriodAllowed s =
     (let isPremium = premium s;
          selectedTimeframe = timeframe s
      in if \<not> isPremium \<and> \<not> isPeriodAllowed selectedTimeframe
         then s\<lparr>timeframe := Period TWO_WEEKS\<rparr>
         else s)"

definition mountComponent ::
  "(TimeFrameSetting \<Rightarrow> bool) \<Rightarrow> bool \<Rightarrow> bool \<Rightarrow> stores \<Rightarrow> stores" where
  \<comment> \<open>the framework mounts a component by rendering it and then calling its mounted
     hooks\<close>
  "mountComponent isPeriodAllowed ethLoading btcLoading s =
     onMounted isPeriodAllowed (render ethLoading btcLoading s)"

section \<open>The statistics client\<close>

text \<open>
  Request and response bodies are JSON values. The HTTP client (\<^verbatim>\<open>api.instance\<close>) sends
  a request to the backend and rejects the response when the \<^verbatim>\<open>validateStatus\<close>
  function of the request's configuration refuses its status code. The backend, the
  status policy \<^verbatim>\<open>validStatus\<close>, the envelope unwrapping \<^verbatim>\<open>handleResponse\<close>, the
  key transformer \<^verbatim>\<open>axiosSnakeCaseTransformer\<close> and the three schemas are declared
  outside the client; they are the fields of \<open>services\<close>. A schema gives the typed value
  of a JSON value that has its shape, and \<open>None\<close> for any other.
\<close>

datatype json =
    JNull
  | JBool bool
  | JNumber int
  | JString string
  | JArray "json list"
  | JObject "(string \<times> json) list"

datatype request = Get string "json option" | Post string json

record response =
  status :: int
  body :: json

record ('tb, 'ld, 'tab) services =
  backend :: "request \<Rightarrow> response"
  validStatus :: "int \<Rightarrow> bool"
  handleResponse :: "response \<Rightarrow> error + json"
  axiosSnakeCaseTransformer :: "json \<Rightarrow> json"
  TimedBalances :: "json \<Rightarrow> 'tb option"
  LocationData :: "json \<Rightarrow> 'ld option"
  TimedAssetBalances :: "json \<Rightarrow> 'tab option"

definition send :: "(request \<Rightarrow> response) \<Rightarrow> (int \<Rightarrow> bool) \<Rightarrow> request \<Rightarrow> error + response" where
  \<comment> \<open>\<^verbatim>\<open>api.instance.get\<close> and \<^verbatim>\<open>api.instance.post\<close> with
     \<^verbatim>\<open>{ validateStatus }\<close>\<close>
  "send server validateStatus req =
     (let r = server req
      in if validateStatus (status r) then Inr r else Inl (RequestError (status r)))"

definition parse :: "(json \<Rightarrow> 'a option) \<Rightarrow> json \<Rightarrow> error + 'a" where
  \<comment> \<open>\<^verbatim>\<open>Schema.parse(value)\<close>: throws on a value that has not the schema's shape\<close>
  "parse schema v = (case schema v of None \<Rightarrow> Inl SchemaValidationError | Some x \<Rightarrow> Inr x)"

text \<open>The requests of the five operations: method, path, and query parameters or body.\<close>

definition netValueRequest :: "('tb, 'ld, 'tab) services \<Rightarrow> bool \<Rightarrow> request" where
  "netValueRequest env includeNfts =
     Get ''/statistics/netvalue''
       (Some (axiosSnakeCaseTransformer env (JObject [(''includeNfts'', JBool includeNfts)])))"

definition timedBalancesRequest ::
  "('tb, 'ld, 'tab) services \<Rightarrow> string \<Rightarrow> int \<Rightarrow> int \<Rightarrow> request" where
  "timedBalancesRequest env asset fromTimestamp toTimestamp =
     Post ''/statistics/balance''
       (axiosSnakeCaseTransformer env
          (JObject [(''fromTimestamp'', JNumber fromTimestamp),
                    (''toTimestamp'', JNumber toTimestamp),
                    (''asset'', JString asset)]))"

definition locationDistributionRequest :: "('tb, 'ld, 'tab) services \<Rightarrow> request" where
  "locationDistributionRequest env =
     Get ''/statistics/value_distribution''
       (Some (axiosSnakeCaseTransformer env
          (JObject [(''distributionBy'', JString ''location'')])))"

definition assetDistributionRequest :: "('tb, 'ld, 'tab) services \<Rightarrow> request" where
  "assetDistributionRequest env =
     Get ''/statistics/value_distribution''
       (Some (axiosSnakeCaseTransformer env
          (JObject [(''distributionBy'', JString ''asset'')])))"

definition rendererRequest :: request where
  "rendererRequest = Get ''/statistics/renderer'' None"

definition queryNetValueData :: "('tb, 'ld, 'tab) services \<Rightarrow> bool \<Rightarrow> error + json" where
  "queryNetValueData env includeNfts =
     (case send (backend env) (validStatus env) (netValueRequest env includeNfts) of
        Inl e \<Rightarrow> Inl e
      | Inr response \<Rightarrow> handleResponse env response)"

definition queryTimedBalancesData ::
  "('tb, 'ld, 'tab) services \<Rightarrow> string \<Rightarrow> int \<Rightarrow> int \<Rightarrow> error + 'tb" where
  "queryTimedBalancesData env asset fromTimestamp toTimestamp =
     (case send (backend env) (validStatus env)
             (timedBalancesRequest env asset fromTimestamp toTimestamp) of
        Inl e \<Rightarrow> Inl e
      | Inr balances \<Rightarrow>
          (case handleResponse env balances of
             Inl e \<Rightarrow> Inl e
           | Inr result \<Rightarrow> parse (TimedBalances env) result))"

definition queryLatestLocationValueDistribution ::
  "('tb, 'ld, 'tab) services \<Rightarrow> error + 'ld" where
  "queryLatestLocationValueDistribution env =
     (case send (backend env) (validStatus env) (locationDistributionRequest env) of
        Inl e \<Rightarrow> Inl e
      | Inr statistics \<Rightarrow>
          (case handleResponse env statistics of
             Inl e \<Rightarrow> Inl e
           | Inr result \<Rightarrow> parse (LocationData env) result))"

definition queryLatestAssetValueDistribution ::
  "('tb, 'ld, 'tab) services \<Rightarrow> error + 'tab" where
  "queryLatestAssetValueDistribution env =
     (case send (backend env) (validStatus env) (assetDistributionRequest env) of
        Inl e \<Rightarrow> Inl e
      | Inr statistics \<Rightarrow>
          (case handleResponse env statistics of
             Inl e \<Rightarrow> Inl e
           | Inr result \<Rightarrow> parse (TimedAssetBalances env) result))"

definition queryStatisticsRenderer :: "('tb, 'ld, 'tab) services \<Rightarrow> error + json" where
  "queryStatisticsRenderer env =
     (case send (backend env) (validStatus env) rendererRequest of
        Inl e \<Rightarrow> Inl e
      | Inr response \<Rightarrow> handleResponse env response)"

subsection \<open>The wording of the specification\<close>

definition firstNonZeroEntry :: "jsnumber list \<Rightarrow> bignumber" where
  \<comment> \<open>the first non-zero entry of the series, or zero if none exists\<close>
  "firstNonZeroEntry data =
     (case find (\<lambda>v. v \<noteq> Finite 0) data of
        Some v \<Rightarrow> bigNumberify (Number v)
      | None \<Rightarrow> BFinite 0)"

definition exactPercentage :: "bignumber \<Rightarrow> jsnumber list \<Rightarrow> string" where
  \<comment> \<open>delta over starting value, times 100, as numbers, formatted to two decimal places;
     the dash when there is no such number\<close>
  "exactPercentage totalNetWorth data =
     (case (finiteValue totalNetWorth, finiteValue (startingValue data)) of
        (Some t, Some s) \<Rightarrow>
          if s = 0 then ''-'' else formatFinite 2 ((t - s) / s * 100)
      | _ \<Rightarrow> ''-'')"

definition seriesFetchInFlight :: "stores \<Rightarrow> bool" where
  \<comment> \<open>the Loading state of the specification's state machine: a fetch of the series
     has been issued and has not resolved\<close>
  "seriesFetchInFlight s = (netValueResolved s < netValueFetches s)"

subsection \<open>Sample collaborators\<close>

text \<open>
  A backend that answers 500 on the paths \<open>down\<close> selects and 200 with an empty array
  in the result envelope on every other path, a status policy, an unwrapping of the
  envelope, and three schemas: arrays for timed balances and asset distribution, an
  object for location data.
\<close>

fun path :: "request \<Rightarrow> string" where
  "path (Get url ps) = url"
| "path (Post url payload) = url"

definition sampleBackend :: "(string \<Rightarrow> bool) \<Rightarrow> request \<Rightarrow> response" where
  "sampleBackend down req =
     (if down (path req) then \<lparr>status = 500, body = JNull\<rparr>
      else \<lparr>status = 200, body = JObject [(''result'', JArray [])]\<rparr>)"

fun sampleUnwrap :: "response \<Rightarrow> error + json" where
  "sampleUnwrap r =
     (case body r of
        JObject [(k, v)] \<Rightarrow>
          if status r = 200 \<and> k = ''result'' then Inr v else Inl (ResponseError ''failed'')
      | _ \<Rightarrow> Inl (ResponseError ''failed''))"

fun arraySchema :: "json \<Rightarrow> json list option" where
  "arraySchema (JArray xs) = Some xs"
| "arraySchema _ = None"

fun objectSchema :: "json \<Rightarrow> (string \<times> json) list option" where
  "objectSchema (JObject kvs) = Some kvs"
| "objectSchema _ = None"

definition sampleServices ::
  "(string \<Rightarrow> bool) \<Rightarrow> (json list, (string \<times> json) list, json list) services" where
  "sampleServices down =
     \<lparr>backend = sampleBackend down,
      validStatus = (\<lambda>code. code = 200 \<or> code = 400 \<or> code = 409),
      handleResponse = sampleUnwrap,
      axiosSnakeCaseTransformer = (\<lambda>payload. payload),
      TimedBalances = arraySchema,
      LocationData = objectSchema,
      TimedAssetBalances = arraySchema\<rparr>"

definition sampleStores :: stores where
  "sampleStores =
     \<lparr>timeframe = Period (OtherPeriod ''All''),
      lastKnownTimeframe = Period (OtherPeriod ''All''),
      premium = False, logged = True, netValueFetches = 0, netValueResolved = 0,
      seriesRequests = [], watchedPremium = False, watcherQueued = False\<rparr>"

definition onlyTwoWeeks :: "TimeFrameSetting \<Rightarrow> bool" where
  \<comment> \<open>a sample \<^verbatim>\<open>isPeriodAllowed\<close>\<close>
  "onlyTwoWeeks t = (t = Period TWO_WEEKS)"

section \<open>Properties of the starting value\<close>

lemma scanForward_find:
  "scanForward data i start =
     (case find greaterThanZero (drop i data) of Some v \<Rightarrow> Number v | None \<Rightarrow> start)"
proof (induction data i start rule: scanForward.induct)
  case (1 data i start)
  show ?case
  proof (cases "i < length data")
    case True
    then have d: "drop i data = data ! i # drop (Suc i) data"
      by (simp add: Cons_nth_drop_Suc)
    show ?thesis
    proof (cases "greaterThanZero (data ! i)")
      case True
      with \<open>i < length data\<close> d show ?thesis
        by (subst scanForward.simps) simp
    next
      case False
      with \<open>i < length data\<close> d "1.IH" show ?thesis
        by (subst scanForward.simps) simp
    qed
  next
    case False
    then show ?thesis by (subst scanForward.simps) simp
  qed
qed

lemma startingValue_Nil: "startingValue [] = BNaN"
  by (simp add: startingValue_def at_index_def)

lemma startingValue_Cons:
  "startingValue (first # rest) =
     (if first = Finite 0
      then (case find greaterThanZero rest of
              Some v \<Rightarrow> bigNumberify (Number v)
            | None \<Rightarrow> BFinite 0)
      else bigNumberify (Number first))"
  by (cases first)
    (simp_all add: startingValue_def at_index_def scanForward_find split: option.splits)

lemma find_first_positive:
  "\<forall>x \<in> set pre. \<not> greaterThanZero x \<Longrightarrow> greaterThanZero v \<Longrightarrow>
   find greaterThanZero (pre @ v # post) = Some v"
  by (induction pre) simp_all

lemma find_no_positive:
  "\<forall>x \<in> set rest. \<not> greaterThanZero x \<Longrightarrow> find greaterThanZero rest = None"
  by (simp add: find_None_iff)

text \<open>
  Claim C1. The starting value of a series is its first data point; when that first value
  is exactly zero it is the first strictly positive value among the later entries, in
  order, and zero when no later entry is strictly positive. In particular, for a series
  that starts with zero, goes on with entries \<open>pre\<close> none of which is strictly positive
  and then has a strictly positive \<open>v\<close>, the starting value is \<open>v\<close>. (A series with
  no data point has an undefined first element, which \<open>bigNumberify\<close> turns into
  \<open>NaN\<close>.)
\<close>

theorem startingValue_first_positive:
  "startingValue data =
     (case data of
        [] \<Rightarrow> BNaN
      | first # rest \<Rightarrow>
          if first = Finite 0
          then (case find greaterThanZero rest of
                  Some v \<Rightarrow> bigNumberify (Number v)
                | None \<Rightarrow> BFinite 0)
          else bigNumberify (Number first))
   \<and> (data = Finite 0 # pre @ v # post \<and> (\<forall>x \<in> set pre. \<not> greaterThanZero x)
        \<and> greaterThanZero v \<longrightarrow> startingValue data = bigNumberify (Number v))
   \<and> (data = Finite 0 # others \<and> (\<forall>x \<in> set others. \<not> greaterThanZero x) \<longrightarrow>
        startingValue data = BFinite 0)"
  by (cases data)
    (auto simp: startingValue_Nil startingValue_Cons find_first_positive find_no_positive)

theorem startingValue_first_positive_witness:
  "[Finite 0, Finite 0, Finite (- 2), Finite 50, Finite 80] =
     Finite 0 # [Finite 0, Finite (- 2)] @ Finite 50 # [Finite 80]
   \<and> greaterThanZero (Finite 50)
   \<and> startingValue [Finite 0, Finite 0, Finite (- 2), Finite 50, Finite 80] = BFinite 50
   \<and> startingValue [Finite 0, Finite (- 2)] = BFinite 0"
  using
    startingValue_first_positive [of "[Finite 0, Finite 0, Finite (- 2), Finite 50, Finite 80]"
      "[Finite 0, Finite (- 2)]" "Finite 50" "[Finite 80]" "[]"]
    startingValue_first_positive [of "[Finite 0, Finite (- 2)]" "[]" "Finite 0" "[]"
      "[Finite (- 2)]"]
  by simp

lemma greaterThanZero_nonzero: "greaterThanZero v \<Longrightarrow> v \<noteq> Finite 0"
  by (cases v) auto

lemma find_enumerate_later:
  "0 < n \<Longrightarrow>
   (case find (\<lambda>(i, v). v \<noteq> Finite 0 \<and> (i = 0 \<or> greaterThanZero v)) (enumerate n xs) of
      Some (i, v) \<Rightarrow> f v | None \<Rightarrow> z) =
   (case find greaterThanZero xs of Some v \<Rightarrow> f v | None \<Rightarrow> z)"
proof (induction xs arbitrary: n)
  case Nil
  then show ?case by simp
next
  case (Cons x xs)
  from Cons.prems have "0 < Suc n" by simp
  from Cons.IH [OF this] Cons.prems show ?case
    by (auto dest: greaterThanZero_nonzero)
qed

text \<open>
  Claim C3, as amended. The data model's wording (the first non-zero entry, negative ones
  included, or zero) is \<open>firstNonZeroEntry\<close>; the component differs from it on a series
  with a negative entry after a zero first entry. What the component computes for a
  series with at least one data point: the first entry that is non-zero and is either
  the first data point or strictly positive, or zero if there is no such entry.
\<close>

theorem startingValue_first_nonzero_or_positive:
  assumes "data \<noteq> []"
  shows "startingValue data =
     (case find (\<lambda>(i, v). v \<noteq> Finite 0 \<and> (i = 0 \<or> greaterThanZero v)) (enumerate 0 data) of
        Some (i, v) \<Rightarrow> bigNumberify (Number v)
      | None \<Rightarrow> BFinite 0)"
proof -
  from assms obtain first rest where d: "data = first # rest"
    by (cases data) auto
  show ?thesis
  proof (cases "first = Finite 0")
    case True
    with d show ?thesis
      using find_enumerate_later [where n = 1 and xs = rest and z = "BFinite 0"
          and f = "\<lambda>v. bigNumberify (Number v)"]
      by (simp add: startingValue_Cons)
  next
    case False
    with d show ?thesis
      by (simp add: startingValue_Cons)
  qed
qed

theorem startingValue_first_nonzero_or_positive_witness:
  "[Finite 0, Finite (- 5), Finite 3] \<noteq> [] \<and>
   startingValue [Finite 0, Finite (- 5), Finite 3] = BFinite 3"
  using startingValue_first_nonzero_or_positive [of "[Finite 0, Finite (- 5), Finite 3]"]
  by (simp add: enumerate_eq_zip)

theorem startingValue_first_nonzero_counterexample:
  "startingValue [Finite 0, Finite (- 5), Finite 3] \<noteq>
   firstNonZeroEntry [Finite 0, Finite (- 5), Finite 3]"
  by (simp add: startingValue_Cons firstNonZeroEntry_def)

section \<open>Properties of the formatting\<close>

lemma digit_cases:
  assumes "d < (10 :: nat)"
  shows "d = 0 \<or> d = 1 \<or> d = 2 \<or> d = 3 \<or> d = 4 \<or> d = 5 \<or> d = 6 \<or> d = 7 \<or> d = 8 \<or> d = 9"
  using assms by arith

lemma digitValue_digitChar: "d < 10 \<Longrightarrow> digitValue (digitChar d) = d"
  using digit_cases [of d] by (auto simp: digitValue_def digitChar_def)

lemma digitChar_digit: "d < 10 \<Longrightarrow> digitChar d \<in> set ''0123456789''"
  using digit_cases [of d] by (auto simp: digitChar_def)

lemma natToString_digits: "set (natToString n) \<subseteq> set ''0123456789''"
proof (induction n rule: natToString.induct)
  case (1 n)
  show ?case
  proof (cases "n < 10")
    case True
    then show ?thesis
      using digitChar_digit [of n] by (subst natToString.simps) simp
  next
    case False
    have "n mod 10 < 10" by simp
    with False "1.IH" digitChar_digit [of "n mod 10"] show ?thesis
      by (subst natToString.simps) simp
  qed
qed

lemma natToString_nonempty: "natToString n \<noteq> []"
  by (subst natToString.simps) simp

lemma readDigits_snoc: "readDigits (str @ [c]) = 10 * readDigits str + digitValue c"
  by (simp add: readDigits_def)

lemma readDigits_natToString: "readDigits (natToString n) = n"
proof (induction n rule: natToString.induct)
  case (1 n)
  show ?case
  proof (cases "n < 10")
    case True
    then show ?thesis
      by (subst natToString.simps) (simp add: readDigits_def digitValue_digitChar)
  next
    case False
    with "1.IH" show ?thesis
      by (subst natToString.simps) (simp add: readDigits_snoc digitValue_digitChar)
  qed
qed

lemma length_natToString: "0 < k \<Longrightarrow> n < 10 ^ k \<Longrightarrow> length (natToString n) \<le> k"
proof (induction n arbitrary: k rule: natToString.induct)
  case (1 n)
  show ?case
  proof (cases "n < 10")
    case True
    with "1.prems" show ?thesis
      by (subst natToString.simps) simp
  next
    case False
    with "1.prems" obtain j where k: "k = Suc j" and j: "0 < j"
      by (cases k; cases "k - 1") auto
    from "1.prems" k have "n div 10 < 10 ^ j"
      by (simp add: less_mult_imp_div_less mult.commute)
    with False j have "length (natToString (n div 10)) \<le> j"
      by (intro "1.IH") simp_all
    with False k show ?thesis
      by (subst natToString.simps) simp
  qed
qed

lemma readDigits_zeros: "readDigits (replicate k CHR ''0'' @ str) = readDigits str"
  by (induction k) (simp_all add: readDigits_def digitValue_def)

lemma groupFrom_no_commas:
  "CHR '','' \<notin> set ds \<Longrightarrow> filter (\<lambda>c. c \<noteq> CHR '','') (groupFrom ds i) = drop i ds"
proof (induction ds i rule: groupFrom.induct)
  case (1 ds i)
  show ?case
  proof (cases "i < length ds")
    case True
    from "1.prems" have t: "filter (\<lambda>c. c \<noteq> CHR '','') (take 3 (drop i ds)) = take 3 (drop i ds)"
      by (auto simp: filter_id_conv dest: in_set_takeD in_set_dropD)
    have "take 3 (drop i ds) @ drop (i + 3) ds = drop i ds"
      by (metis add.commute append_take_drop_id drop_drop)
    with True "1.IH" "1.prems" t show ?thesis
      by (subst groupFrom.simps) simp
  next
    case False
    then show ?thesis by (subst groupFrom.simps) simp
  qed
qed

lemma groupDigits_no_commas:
  "CHR '','' \<notin> set ds \<Longrightarrow> filter (\<lambda>c. c \<noteq> CHR '','') (groupDigits ds) = ds"
proof -
  assume a: "CHR '','' \<notin> set ds"
  then have "\<And>i. filter (\<lambda>c. c \<noteq> CHR '','') (take i ds) = take i ds"
    by (auto simp: filter_id_conv dest: in_set_takeD)
  with a show ?thesis
    by (simp add: groupDigits_def Let_def groupFrom_no_commas)
qed

lemma groupDigits_hd: "ds \<noteq> [] \<Longrightarrow> take 1 (groupDigits ds) = take 1 ds"
  by (cases ds) (auto simp: groupDigits_def Let_def take_Cons')

lemma padStart_fraction:
  assumes "0 < dp" and "m < 10 ^ dp"
  shows "length (padStart dp (natToString m)) = dp"
    and "readDigits (padStart dp (natToString m)) = m"
    and "set (padStart dp (natToString m)) \<subseteq> set ''0123456789''"
proof -
  from assms have "length (natToString m) \<le> dp"
    by (rule length_natToString)
  then show "length (padStart dp (natToString m)) = dp"
    by (simp add: padStart_def)
  show "readDigits (padStart dp (natToString m)) = m"
    by (simp add: padStart_def readDigits_zeros readDigits_natToString)
  from natToString_digits [of m]
  show "set (padStart dp (natToString m)) \<subseteq> set ''0123456789''"
    by (auto simp: padStart_def)
qed

lemma scaledCoefficient_roundHalfUp:
  "roundHalfUp dp r = sgn r * of_nat (scaledCoefficient dp r) / 10 ^ dp"
proof -
  have "0 \<le> \<lfloor>\<bar>r\<bar> * 10 ^ dp + 1 / 2\<rfloor>"
    by simp
  then show ?thesis
    by (simp add: roundHalfUp_def scaledCoefficient_def)
qed

lemma scaledCoefficient_zero: "scaledCoefficient dp 0 = 0"
  by (simp add: scaledCoefficient_def)

text \<open>The shape of a formatted finite value.\<close>

lemma formatFinite_shape:
  "formatFinite dp r =
     (if r < 0 then ''-'' else [])
       @ groupDigits (natToString (scaledCoefficient dp r div 10 ^ dp))
       @ (if dp = 0 then []
          else CHR ''.'' # padStart dp (natToString (scaledCoefficient dp r mod 10 ^ dp)))"
  by (simp add: formatFinite_def Let_def)

lemma decimalValue_unsigned:
  assumes digits: "set N \<subseteq> set ''0123456789''" and ne: "N \<noteq> []"
    and fdigits: "set F \<subseteq> set ''0123456789''"
  shows "decimalValue (groupDigits N @ (if dot then CHR ''.'' # F else [])) =
     of_nat (readDigits N)
       + (if dot then of_nat (readDigits F) / 10 ^ length F else 0)"
proof -
  define tail where "tail = (if dot then CHR ''.'' # F else [])"
  define str where "str = groupDigits N @ tail"
  from digits have nocomma: "CHR '','' \<notin> set N" and nodot: "CHR ''.'' \<notin> set N"
    and nominus: "CHR ''-'' \<notin> set N"
    by auto
  from ne nominus have "take 1 N \<noteq> ''-''"
    by (cases N) auto
  with ne have pos: "(take 1 str = ''-'') = False"
    using groupDigits_hd [of N] by (cases "groupDigits N") (auto simp: str_def)
  from fdigits have "filter (\<lambda>c. c \<noteq> CHR '','') F = F"
    by (auto simp: filter_id_conv)
  with nocomma have u: "filter (\<lambda>c. c \<noteq> CHR '','') str = N @ tail"
    by (simp add: groupDigits_no_commas str_def tail_def)
  from nodot have "\<forall>x \<in> set N. x \<noteq> CHR ''.''"
    by auto
  then have tw: "takeWhile (\<lambda>c. c \<noteq> CHR ''.'') (N @ tail) = N"
    by (cases dot) (simp_all add: takeWhile_tail tail_def)
  have dr: "drop (Suc (length N)) (N @ tail) = (if dot then F else [])"
    by (simp add: tail_def)
  have "decimalValue str =
      of_nat (readDigits (takeWhile (\<lambda>c. c \<noteq> CHR ''.'') (filter (\<lambda>c. c \<noteq> CHR '','') str)))
      + of_nat (readDigits
          (drop (Suc (length (takeWhile (\<lambda>c. c \<noteq> CHR ''.'')
             (filter (\<lambda>c. c \<noteq> CHR '','') str)))) (filter (\<lambda>c. c \<noteq> CHR '','') str)))
        / 10 ^ length
          (drop (Suc (length (takeWhile (\<lambda>c. c \<noteq> CHR ''.'')
             (filter (\<lambda>c. c \<noteq> CHR '','') str)))) (filter (\<lambda>c. c \<noteq> CHR '','') str))"
    unfolding decimalValue_def Let_def pos by (simp only: if_False)
  also have "\<dots> = of_nat (readDigits N)
      + of_nat (readDigits (if dot then F else [])) / 10 ^ length (if dot then F else [])"
    by (simp only: u tw dr)
  also have "\<dots> = of_nat (readDigits N)
      + (if dot then of_nat (readDigits F) / 10 ^ length F else 0)"
    by (simp add: readDigits_def)
  finally show ?thesis
    by (simp only: str_def tail_def)
qed

lemma decimalValue_signed:
  assumes "set N \<subseteq> set ''0123456789''" and "N \<noteq> []"
    and "set F \<subseteq> set ''0123456789''"
  shows "decimalValue (''-'' @ groupDigits N @ (if dot then CHR ''.'' # F else [])) =
     - decimalValue (groupDigits N @ (if dot then CHR ''.'' # F else []))"
proof -
  define str where "str = groupDigits N @ (if dot then CHR ''.'' # F else [])"
  from assms(1) have nominus: "CHR ''-'' \<notin> set N"
    by auto
  with assms(2) have "take 1 N \<noteq> ''-''"
    by (cases N) auto
  with assms(2) have pos: "(take 1 str = ''-'') = False"
    using groupDigits_hd [of N] by (cases "groupDigits N") (auto simp: str_def)
  have neg: "(take 1 (''-'' @ str) = ''-'') = True" and d: "drop 1 (''-'' @ str) = str"
    by simp_all
  have "decimalValue (''-'' @ str) = - decimalValue str"
    unfolding decimalValue_def Let_def pos neg d by (simp only: if_True if_False)
  then show ?thesis
    by (simp only: str_def)
qed

lemma decimalValue_formatFinite: "decimalValue (formatFinite dp r) = roundHalfUp dp r"
proof -
  define c where "c = scaledCoefficient dp r"
  define N where "N = natToString (c div 10 ^ dp)"
  define F where "F = padStart dp (natToString (c mod 10 ^ dp))"
  have N: "set N \<subseteq> set ''0123456789''" "N \<noteq> []" "readDigits N = c div 10 ^ dp"
    unfolding N_def
    by (rule natToString_digits, rule natToString_nonempty, rule readDigits_natToString)
  have F: "set F \<subseteq> set ''0123456789''"
    unfolding F_def using natToString_digits [of "c mod 10 ^ dp"] by (auto simp: padStart_def)
  have shape: "formatFinite dp r =
      (if r < 0 then ''-'' else []) @ groupDigits N @ (if 0 < dp then CHR ''.'' # F else [])"
    by (simp add: formatFinite_shape c_def N_def F_def)
  have magnitude: "decimalValue (groupDigits N @ (if 0 < dp then CHR ''.'' # F else [])) =
      of_nat c / 10 ^ dp"
  proof (cases "0 < dp")
    case True
    have m: "c mod 10 ^ dp < 10 ^ dp" by simp
    from padStart_fraction(1,2) [OF True m]
    have "length F = dp" "readDigits F = c mod 10 ^ dp"
      by (simp_all add: F_def)
    moreover have "(of_nat (c div 10 ^ dp) :: rat) + of_nat (c mod 10 ^ dp) / 10 ^ dp =
        of_nat c / 10 ^ dp"
    proof -
      have "(of_nat (c div 10 ^ dp) :: rat) * 10 ^ dp + of_nat (c mod 10 ^ dp) =
          of_nat (c div 10 ^ dp * 10 ^ dp + c mod 10 ^ dp)"
        by simp
      also have "\<dots> = of_nat c"
        by (simp only: div_mult_mod_eq)
      finally show ?thesis
        by (simp add: field_simps)
    qed
    ultimately show ?thesis
      using True decimalValue_unsigned [OF N(1,2) F, of True] N(3) by simp
  next
    case False
    then show ?thesis
      using decimalValue_unsigned [OF N(1,2) F, of False] N(3) by simp
  qed
  show ?thesis
  proof (cases "r < 0")
    case True
    then have "sgn r = - 1" by simp
    with True shape magnitude decimalValue_signed [OF N(1,2) F, of "0 < dp"] show ?thesis
      by (simp add: scaledCoefficient_roundHalfUp c_def)
  next
    case False
    show ?thesis
    proof (cases "r = 0")
      case True
      with shape magnitude show ?thesis
        by (simp add: scaledCoefficient_roundHalfUp c_def scaledCoefficient_zero)
    next
      case nz: False
      with False have "sgn r = 1" by simp
      with False shape magnitude show ?thesis
        by (simp add: scaledCoefficient_roundHalfUp c_def)
    qed
  qed
qed

lemma formatFinite_two_decimals:
  "\<exists>intPart d1 d2. formatFinite 2 r = intPart @ [CHR ''.'', d1, d2]
     \<and> d1 \<in> set ''0123456789'' \<and> d2 \<in> set ''0123456789'' \<and> CHR ''.'' \<notin> set intPart"
proof -
  define c where "c = scaledCoefficient 2 r"
  define N where "N = natToString (c div 10 ^ 2)"
  define F where "F = padStart 2 (natToString (c mod 10 ^ 2))"
  have m: "c mod 10 ^ 2 < 10 ^ 2" by simp
  have "length F = 2" and Fd: "set F \<subseteq> set ''0123456789''"
    using padStart_fraction(1,3) [OF _ m] by (simp_all add: F_def)
  then obtain d1 d2 where F: "F = [d1, d2]"
    by (cases F; cases "tl F") auto
  have "set N \<subseteq> set ''0123456789''"
    unfolding N_def by (rule natToString_digits)
  then have nodot: "CHR ''.'' \<notin> set N" by auto
  have sub: "set (groupDigits N) \<subseteq> set N \<union> {CHR '',''}"
  proof -
    have "\<And>i. set (groupFrom N i) \<subseteq> set N \<union> {CHR '',''}"
    proof -
      fix i show "set (groupFrom N i) \<subseteq> set N \<union> {CHR '',''}"
      proof (induction N i rule: groupFrom.induct)
        case (1 ds i)
        show ?case
        proof (cases "i < length ds")
          case True
          with "1.IH" show ?thesis
            by (subst groupFrom.simps) (auto dest: in_set_takeD in_set_dropD)
        next
          case False
          then show ?thesis by (subst groupFrom.simps) simp
        qed
      qed
    qed
    then show ?thesis
      by (auto simp: groupDigits_def Let_def dest: in_set_takeD)
  qed
  with nodot have "CHR ''.'' \<notin> set ((if r < 0 then ''-'' else []) @ groupDigits N)"
    by auto
  moreover have "formatFinite 2 r =
      ((if r < 0 then ''-'' else []) @ groupDigits N) @ [CHR ''.'', d1, d2]"
    using F by (simp add: formatFinite_shape c_def N_def F_def)
  moreover from Fd F have "d1 \<in> set ''0123456789''" "d2 \<in> set ''0123456789''"
    by simp_all
  ultimately show ?thesis by blast
qed

section \<open>Properties of delta and percentage\<close>

lemma floor_numeral_div:
  "\<lfloor>(numeral a :: rat) / numeral b\<rfloor> = numeral a div numeral b"
  using floor_divide_of_int_eq [of "numeral a" "numeral b", where ?'a = rat] by simp

lemma startingValue_not_negative_zero: "startingValue data \<noteq> BNegZero"
proof (cases data)
  case Nil
  then show ?thesis by (simp add: startingValue_Nil)
next
  case (Cons first rest)
  have b: "\<And>v. bigNumberify (Number v) \<noteq> BNegZero"
  proof -
    fix v show "bigNumberify (Number v) \<noteq> BNegZero" by (cases v) simp_all
  qed
  from Cons b show ?thesis
    by (simp add: startingValue_Cons split: option.splits)
qed

lemma toFormat_signedZero: "toFormat dp (signedZero negative) = formatFinite dp 0"
  by (simp add: signedZero_def)

lemma isFinite_signedZero: "isFinite (signedZero negative)"
  by (simp add: signedZero_def)

lemma valueOf_signedZero: "valueOf (signedZero negative) = 0"
  by (simp add: signedZero_def)

lemma multipliedBy_100:
  "finiteValue x = Some q \<Longrightarrow>
   isFinite (multipliedBy x (BFinite 100))
   \<and> toFormat 2 (multipliedBy x (BFinite 100)) = formatFinite 2 (q * 100)"
  by (cases x) (auto simp: Let_def toFormat_signedZero isFinite_signedZero)

lemma divBN_finite:
  assumes "finiteValue x = Some d" and "s \<noteq> 0"
  shows "finiteValue (divBN x (BFinite s)) = Some (roundHalfUp DECIMAL_PLACES (d / s))"
  using assms by (cases x) (auto simp: Let_def signedZero_def)

lemma balanceDelta_finite:
  assumes "finiteValue totalNetWorth = Some t" and "startingValue data = BFinite s"
  shows "finiteValue (balanceDelta totalNetWorth data) = Some (t - s)"
  using assms by (cases totalNetWorth) (auto simp: balanceDelta_def)

lemma percentage_finite:
  assumes t: "finiteValue totalNetWorth = Some t" and s: "startingValue data = BFinite s"
    and nz: "s \<noteq> 0"
  shows "percentage totalNetWorth data =
     formatFinite 2 (roundHalfUp DECIMAL_PLACES ((t - s) / s) * 100)"
proof -
  from balanceDelta_finite [OF t s] nz
  have "finiteValue (divBN (balanceDelta totalNetWorth data) (BFinite s)) =
      Some (roundHalfUp DECIMAL_PLACES ((t - s) / s))"
    by (rule divBN_finite)
  from multipliedBy_100 [OF this] s show ?thesis
    by (simp add: percentage_def percentageRatio_def)
qed

lemma percentageRatio_zero_start:
  assumes "startingValue data = BFinite 0"
  shows "\<not> isFinite (percentageRatio totalNetWorth data)"
  using assms by (cases totalNetWorth) (simp_all add: percentageRatio_def balanceDelta_def)

lemma percentageRatio_not_finite:
  assumes "finiteValue totalNetWorth = None \<or> finiteValue (startingValue data) = None"
  shows "\<not> isFinite (percentageRatio totalNetWorth data)"
  using assms
  by (cases totalNetWorth; cases "startingValue data")
    (simp_all add: percentageRatio_def balanceDelta_def)

lemma percentage_dash:
  "\<not> isFinite (percentageRatio totalNetWorth data) \<Longrightarrow> percentage totalNetWorth data = ''-''"
  by (simp add: percentage_def)

lemma percentage_cases:
  "percentage totalNetWorth data =
     (case (finiteValue totalNetWorth, finiteValue (startingValue data)) of
        (Some t, Some s) \<Rightarrow>
          if s = 0 then ''-''
          else formatFinite 2 (roundHalfUp DECIMAL_PLACES ((t - s) / s) * 100)
      | _ \<Rightarrow> ''-'')"
proof (cases "finiteValue totalNetWorth")
  case None
  then show ?thesis
    using percentageRatio_not_finite [of totalNetWorth data] by (simp add: percentage_dash)
next
  case t: (Some t)
  show ?thesis
  proof (cases "finiteValue (startingValue data)")
    case None
    with t show ?thesis
      using percentageRatio_not_finite [of totalNetWorth data] by (simp add: percentage_dash)
  next
    case (Some s)
    with startingValue_not_negative_zero [of data] have s: "startingValue data = BFinite s"
      by (cases "startingValue data") simp_all
    show ?thesis
    proof (cases "s = 0")
      case True
      with s t Some show ?thesis
        using percentageRatio_zero_start [of data totalNetWorth] by (simp add: percentage_dash)
    next
      case False
      with t Some percentage_finite [OF t s False] show ?thesis by simp
    qed
  qed
qed

lemma startingValue_all_zero:
  assumes "data \<noteq> []" and "\<forall>v \<in> set data. v = Finite 0"
  shows "startingValue data = BFinite 0"
proof -
  from assms(1) obtain first rest where d: "data = first # rest"
    by (cases data) auto
  with assms(2) have f: "first = Finite 0" and r: "\<forall>v \<in> set rest. v = Finite 0"
    by auto
  from r have "find greaterThanZero rest = None"
    by (auto simp: find_None_iff)
  with d f show ?thesis
    by (simp add: startingValue_Cons)
qed

lemma formatFinite_not_names:
  "formatFinite 2 r \<noteq> ''Infinity'' \<and> formatFinite 2 r \<noteq> ''NaN'' \<and> formatFinite 2 r \<noteq> ''-''"
proof -
  have "CHR ''.'' \<in> set (formatFinite 2 r)"
    by (simp add: formatFinite_shape)
  moreover have "CHR ''.'' \<notin> set ''Infinity''" "CHR ''.'' \<notin> set ''NaN''"
    "CHR ''.'' \<notin> set ''-''"
    by simp_all
  ultimately show ?thesis by metis
qed

lemma percentage_not_names:
  "percentage totalNetWorth data \<noteq> ''Infinity'' \<and> percentage totalNetWorth data \<noteq> ''NaN''"
  using formatFinite_not_names
  by (simp add: percentage_cases split: option.splits)

text \<open>Some values, computed.\<close>

lemma formatFinite_100: "formatFinite 2 100 = ''100.00''"
proof -
  have "scaledCoefficient 2 100 = 10000"
    by (simp add: scaledCoefficient_def floor_numeral_div)
  then show ?thesis
    by (simp add: formatFinite_shape natToString.simps digitChar_def groupDigits_def
        groupFrom.simps padStart_def)
qed

lemma formatFinite_1234500: "formatFinite 2 1234500 = ''1,234,500.00''"
proof -
  have "scaledCoefficient 2 1234500 = 123450000"
    by (simp add: scaledCoefficient_def floor_numeral_div)
  then show ?thesis
    by (simp add: formatFinite_shape natToString.simps digitChar_def groupDigits_def
        groupFrom.simps padStart_def)
qed

lemma roundHalfUp_1: "roundHalfUp DECIMAL_PLACES 1 = 1"
  by (simp add: roundHalfUp_def DECIMAL_PLACES_def floor_numeral_div)

lemma roundHalfUp_12345: "roundHalfUp DECIMAL_PLACES 12345 = 12345"
  by (simp add: roundHalfUp_def DECIMAL_PLACES_def floor_numeral_div)

lemma roundHalfUp_two_thirds:
  "roundHalfUp DECIMAL_PLACES (- (2 / 3)) = - (66666666666666666667 / 100000000000000000000)"
  by (simp add: roundHalfUp_def DECIMAL_PLACES_def floor_numeral_div)

lemma formatFinite_two_thirds:
  "formatFinite 2 (- (66666666666666666667 / 1000000000000000000)) = ''-66.67''"
proof -
  have "scaledCoefficient 2 (- (66666666666666666667 / 1000000000000000000)) = 6667"
    by (simp add: scaledCoefficient_def floor_numeral_div)
  then show ?thesis
    by (simp add: formatFinite_shape natToString.simps digitChar_def groupDigits_def
        groupFrom.simps padStart_def)
qed

lemma roundHalfUp_double:
  "roundHalfUp DECIMAL_PLACES (14999999999999999 / 300000000000000000000) = 1 / 20000"
  by (simp add: roundHalfUp_def DECIMAL_PLACES_def floor_numeral_div)

lemma formatFinite_half_cent: "formatFinite 2 (1 / 200) = ''0.01''"
proof -
  have "scaledCoefficient 2 (1 / 200) = 1"
    by (simp add: scaledCoefficient_def floor_numeral_div)
  then show ?thesis
    by (simp add: formatFinite_shape natToString.simps digitChar_def groupDigits_def
        groupFrom.simps padStart_def)
qed

lemma formatFinite_below_half_cent:
  "formatFinite 2 (14999999999999999 / 3000000000000000000) = ''0.00''"
proof -
  have "scaledCoefficient 2 (14999999999999999 / 3000000000000000000) = 0"
    by (simp add: scaledCoefficient_def floor_numeral_div)
  then show ?thesis
    by (simp add: formatFinite_shape natToString.simps digitChar_def groupDigits_def
        groupFrom.simps padStart_def)
qed

text \<open>
  Claim C2, as amended. The claim's formula, the quotient of delta by the starting value
  times 100 formatted to two decimal places, is \<open>exactPercentage\<close>; the component
  differs from it where the quotient has more than twenty decimal places, because the
  BigNumber division rounds it to \<open>DECIMAL_PLACES\<close> before the multiplication. What the
  component computes, with delta the current total minus the starting value: when the
  total is finite and the starting value is finite and not zero, the text of
  100 times the quotient rounded half up to twenty places; that text reads back as this
  number rounded half up to two places, and ends in a decimal point and two digits. In
  every other case the percentage is the dash: when the starting value is zero, as for
  a series of zeros only, the ratio is not finite. The percentage is never the text
  \<open>Infinity\<close> or \<open>NaN\<close>.
\<close>

theorem percentage_formatted_or_dash:
  "percentage totalNetWorth data =
     (case (finiteValue totalNetWorth, finiteValue (startingValue data)) of
        (Some t, Some s) \<Rightarrow>
          if s = 0 then ''-''
          else formatFinite 2 (roundHalfUp DECIMAL_PLACES ((t - s) / s) * 100)
      | _ \<Rightarrow> ''-'')
   \<and> (finiteValue totalNetWorth = Some t \<and> finiteValue (startingValue data) = Some s
        \<and> s \<noteq> 0 \<longrightarrow>
        decimalValue (percentage totalNetWorth data) =
          roundHalfUp 2 (roundHalfUp DECIMAL_PLACES ((t - s) / s) * 100)
        \<and> (\<exists>intPart d1 d2.
              percentage totalNetWorth data = intPart @ [CHR ''.'', d1, d2]
              \<and> d1 \<in> set ''0123456789'' \<and> d2 \<in> set ''0123456789''
              \<and> CHR ''.'' \<notin> set intPart))
   \<and> (startingValue data = BFinite 0 \<longrightarrow>
        \<not> isFinite (percentageRatio totalNetWorth data)
        \<and> percentage totalNetWorth data = ''-'')
   \<and> (data \<noteq> [] \<and> (\<forall>v \<in> set data. v = Finite 0) \<longrightarrow>
        startingValue data = BFinite 0 \<and> percentage totalNetWorth data = ''-'')
   \<and> percentage totalNetWorth data \<noteq> ''Infinity''
   \<and> percentage totalNetWorth data \<noteq> ''NaN''"
proof -
  have v: "finiteValue totalNetWorth = Some t \<and> finiteValue (startingValue data) = Some s
        \<and> s \<noteq> 0 \<longrightarrow>
        decimalValue (percentage totalNetWorth data) =
          roundHalfUp 2 (roundHalfUp DECIMAL_PLACES ((t - s) / s) * 100)
        \<and> (\<exists>intPart d1 d2.
              percentage totalNetWorth data = intPart @ [CHR ''.'', d1, d2]
              \<and> d1 \<in> set ''0123456789'' \<and> d2 \<in> set ''0123456789''
              \<and> CHR ''.'' \<notin> set intPart)"
  proof
    assume a: "finiteValue totalNetWorth = Some t \<and> finiteValue (startingValue data) = Some s
        \<and> s \<noteq> 0"
    then have "percentage totalNetWorth data =
        formatFinite 2 (roundHalfUp DECIMAL_PLACES ((t - s) / s) * 100)"
      by (simp add: percentage_cases)
    then show "decimalValue (percentage totalNetWorth data) =
          roundHalfUp 2 (roundHalfUp DECIMAL_PLACES ((t - s) / s) * 100)
        \<and> (\<exists>intPart d1 d2.
              percentage totalNetWorth data = intPart @ [CHR ''.'', d1, d2]
              \<and> d1 \<in> set ''0123456789'' \<and> d2 \<in> set ''0123456789''
              \<and> CHR ''.'' \<notin> set intPart)"
      using formatFinite_two_decimals [of "roundHalfUp DECIMAL_PLACES ((t - s) / s) * 100"]
      by (auto simp: decimalValue_formatFinite)
  qed
  have z: "startingValue data = BFinite 0 \<longrightarrow>
        \<not> isFinite (percentageRatio totalNetWorth data)
        \<and> percentage totalNetWorth data = ''-''"
    using percentageRatio_zero_start [of data totalNetWorth]
    by (simp add: percentage_dash)
  have az: "data \<noteq> [] \<and> (\<forall>v \<in> set data. v = Finite 0) \<longrightarrow>
        startingValue data = BFinite 0 \<and> percentage totalNetWorth data = ''-''"
    using startingValue_all_zero [of data] z by blast
  from percentage_cases [of totalNetWorth data] v z az
    percentage_not_names [of totalNetWorth data]
  show ?thesis by (intro conjI) blast+
qed

theorem percentage_formatted_or_dash_witness:
  "startingValue [Finite 0, Finite 0] = BFinite 0
   \<and> \<not> isFinite (percentageRatio (BFinite 100) [Finite 0, Finite 0])
   \<and> percentage (BFinite 100) [Finite 0, Finite 0] = ''-''
   \<and> percentage (BFinite 100) [Finite 0, Finite 0, Finite 50, Finite 80] = ''100.00''
   \<and> percentage (BFinite 12346) [Finite 1] = ''1,234,500.00''
   \<and> percentage (BFinite 1) [Finite 3] = ''-66.67''
   \<and> decimalValue (percentage (BFinite 1) [Finite 3]) = - (6667 / 100)"
proof -
  have z: "startingValue [Finite 0, Finite 0] = BFinite 0"
    by (simp add: startingValue_Cons)
  have a: "[Finite 0, Finite 0] \<noteq> [] \<and> (\<forall>v \<in> set [Finite 0, Finite 0]. v = Finite 0)"
    by simp
  from z a percentage_formatted_or_dash [of "BFinite 100" "[Finite 0, Finite 0]"]
  have 1: "\<not> isFinite (percentageRatio (BFinite 100) [Finite 0, Finite 0])
      \<and> percentage (BFinite 100) [Finite 0, Finite 0] = ''-''"
    by blast
  from percentage_formatted_or_dash
    [of "BFinite 100" "[Finite 0, Finite 0, Finite 50, Finite 80]"]
  have 2: "percentage (BFinite 100) [Finite 0, Finite 0, Finite 50, Finite 80] = ''100.00''"
    by (simp add: startingValue_Cons roundHalfUp_1 formatFinite_100)
  from percentage_formatted_or_dash [of "BFinite 12346" "[Finite 1]"]
  have 3: "percentage (BFinite 12346) [Finite 1] = ''1,234,500.00''"
    by (simp add: startingValue_Cons roundHalfUp_12345 formatFinite_1234500)
  have s3: "finiteValue (BFinite 1) = Some 1
      \<and> finiteValue (startingValue [Finite 3]) = Some 3 \<and> (3 :: rat) \<noteq> 0"
    by (simp add: startingValue_Cons)
  from percentage_formatted_or_dash [of "BFinite 1" "[Finite 3]" 1 3]
  have 4: "percentage (BFinite 1) [Finite 3] = ''-66.67''"
    by (simp add: startingValue_Cons roundHalfUp_two_thirds formatFinite_two_thirds)
  from s3 percentage_formatted_or_dash [of "BFinite 1" "[Finite 3]" 1 3]
  have "decimalValue (percentage (BFinite 1) [Finite 3]) =
      roundHalfUp 2 (roundHalfUp DECIMAL_PLACES ((1 - 3) / 3) * 100)"
    by blast
  then have 5: "decimalValue (percentage (BFinite 1) [Finite 3]) = - (6667 / 100)"
    by (simp add: roundHalfUp_two_thirds) (simp add: roundHalfUp_def floor_numeral_div)
  from z 1 2 3 4 5 show ?thesis by blast
qed

theorem percentage_exact_counterexample:
  "percentage (BFinite (300014999999999999999 / 100000000000000000000)) [Finite 3] = ''0.01''
   \<and> exactPercentage (BFinite (300014999999999999999 / 100000000000000000000)) [Finite 3] =
       ''0.00''"
  by (simp add: percentage_cases exactPercentage_def startingValue_Cons roundHalfUp_double
      formatFinite_half_cent formatFinite_below_half_cent)

lemma balanceDelta_empty: "balanceDelta totalNetWorth [] = BNaN"
  by (cases totalNetWorth) (simp_all add: balanceDelta_def startingValue_Nil)

lemma percentageRatio_empty: "percentageRatio totalNetWorth [] = BNaN"
  by (simp add: percentageRatio_def balanceDelta_empty)

lemma minusBN_negative_zero: "minusBN x y = BNegZero \<longleftrightarrow> x = BNegZero \<and> y = BFinite 0"
  by (cases x; cases y) auto

text \<open>
  Claim C10, as amended. For the series with no data point the starting value is
  \<open>NaN\<close>, hence not finite, the delta is \<open>NaN\<close> for every total, and the percentage is
  the dash: each step is a value and not an exception (an array read past the end is
  \<^verbatim>\<open>undefined\<close>, the BigNumber made of it is \<open>NaN\<close>, and arithmetic on \<open>NaN\<close> gives
  \<open>NaN\<close>). A delta that is the positive zero is not negative: outside loading it gives
  the up glyph and the green class. A delta that is the negative zero is exactly zero
  too, but its sign is negative and it gives the down glyph and the red class; the delta
  is the negative zero exactly when the total is the negative zero and the starting
  value is the positive zero.
\<close>

theorem empty_series_and_zero_delta:
  "startingValue [] = BNaN \<and> \<not> isFinite (startingValue [])
   \<and> balanceDelta totalNetWorth [] = BNaN \<and> \<not> isFinite (balanceDelta totalNetWorth [])
   \<and> percentage totalNetWorth [] = ''-''
   \<and> (balanceDelta totalNetWorth data = BFinite 0 \<longrightarrow>
        indicator False False totalNetWorth data = ''mdi-menu-up''
        \<and> balanceClass False False totalNetWorth data = ''rotki-green'')
   \<and> (balanceDelta totalNetWorth data = BNegZero \<longrightarrow>
        indicator False False totalNetWorth data = ''mdi-menu-down''
        \<and> balanceClass False False totalNetWorth data = ''rotki-red lighten-1'')
   \<and> (balanceDelta totalNetWorth data = BNegZero \<longleftrightarrow>
        totalNetWorth = BNegZero \<and> startingValue data = BFinite 0)"
  by (simp add: startingValue_Nil balanceDelta_empty percentage_def percentageRatio_empty
      indicator_def balanceClass_def isLoading_def)
    (simp add: balanceDelta_def minusBN_negative_zero)

theorem empty_series_and_zero_delta_witness:
  "balanceDelta (BFinite 50) [Finite 50] = BFinite 0
   \<and> indicator False False (BFinite 50) [Finite 50] = ''mdi-menu-up''
   \<and> balanceClass False False (BFinite 50) [Finite 50] = ''rotki-green''
   \<and> balanceDelta BNegZero [Finite 0] = BNegZero
   \<and> balanceClass False False BNegZero [Finite 0] = ''rotki-red lighten-1''
   \<and> percentage (BFinite 50) [] = ''-''"
proof -
  have h: "balanceDelta (BFinite 50) [Finite 50] = BFinite 0"
    by (simp add: balanceDelta_def startingValue_Cons)
  have n: "BNegZero = BNegZero \<and> startingValue [Finite 0] = BFinite 0"
    by (simp add: startingValue_Cons)
  from h empty_series_and_zero_delta [of "BFinite 50" "[Finite 50]"]
  have 1: "indicator False False (BFinite 50) [Finite 50] = ''mdi-menu-up''
      \<and> balanceClass False False (BFinite 50) [Finite 50] = ''rotki-green''
      \<and> percentage (BFinite 50) [] = ''-''"
    by blast
  from n empty_series_and_zero_delta [of BNegZero "[Finite 0]"]
  have 2: "balanceDelta BNegZero [Finite 0] = BNegZero
      \<and> balanceClass False False BNegZero [Finite 0] = ''rotki-red lighten-1''"
    by blast
  from h 1 2 show ?thesis by blast
qed

theorem zero_delta_counterexample:
  "balanceDelta BNegZero [Finite 0] = BNegZero
   \<and> finiteValue (balanceDelta BNegZero [Finite 0]) = Some 0
   \<and> indicator False False BNegZero [Finite 0] = ''mdi-menu-down''
   \<and> balanceClass False False BNegZero [Finite 0] = ''rotki-red lighten-1''"
  by (simp add: balanceDelta_def startingValue_Cons indicator_def balanceClass_def
      isLoading_def)

section \<open>Properties of the indicator and of the font size\<close>

lemma isNegative_balanceDelta:
  "totalNetWorth = BFinite t \<Longrightarrow> startingValue data = BFinite s \<Longrightarrow>
   isNegative (balanceDelta totalNetWorth data) = (t < s)"
  by (simp add: balanceDelta_def)

lemma isNegative_balanceDelta_negative_zero:
  "startingValue data = BFinite s \<Longrightarrow>
   isNegative (balanceDelta BNegZero data) = (0 \<le> s)"
  by (auto simp: balanceDelta_def)

text \<open>
  Claim C9, as amended. The specification's Loading state, a fetch of the series in
  flight (\<open>seriesFetchInFlight\<close>), is not what the component tests: with a fetch in
  flight and no section loading, glyph and colour are shown. What holds is this. While
  the component's loading flag is set, that is while the ETH or the BTC blockchain
  section is loading, the indicator is empty and the class is the neutral grey, whatever
  the delta is. While it is not set, the glyph and the class follow the sign of the
  delta: down and red when the delta is negative, up and green otherwise. For a finite
  total and a finite starting value the delta is negative exactly when the total is
  below the starting value; for the negative zero as total, exactly when the starting
  value is not negative.
\<close>

theorem indicator_and_class:
  "(isLoading ethLoading btcLoading \<longrightarrow>
      indicator ethLoading btcLoading totalNetWorth data = []
      \<and> balanceClass ethLoading btcLoading totalNetWorth data = ''rotki-grey lighten-3'')
   \<and> (\<not> isLoading ethLoading btcLoading \<longrightarrow>
      indicator ethLoading btcLoading totalNetWorth data =
        (if isNegative (balanceDelta totalNetWorth data) then ''mdi-menu-down''
         else ''mdi-menu-up'')
      \<and> balanceClass ethLoading btcLoading totalNetWorth data =
        (if isNegative (balanceDelta totalNetWorth data) then ''rotki-red lighten-1''
         else ''rotki-green''))
   \<and> isLoading ethLoading btcLoading = (ethLoading \<or> btcLoading)
   \<and> (totalNetWorth = BFinite t \<and> startingValue data = BFinite s \<longrightarrow>
      isNegative (balanceDelta totalNetWorth data) = (t < s))
   \<and> (totalNetWorth = BNegZero \<and> startingValue data = BFinite s \<longrightarrow>
      isNegative (balanceDelta totalNetWorth data) = (0 \<le> s))"
  by (simp add: indicator_def balanceClass_def isNegative_balanceDelta
      isNegative_balanceDelta_negative_zero)
    (simp add: isLoading_def)

theorem indicator_and_class_witness:
  "isLoading True False
   \<and> indicator True False (BFinite 80) [Finite 100] = []
   \<and> balanceClass True False (BFinite 80) [Finite 100] = ''rotki-grey lighten-3''
   \<and> \<not> isLoading False False
   \<and> startingValue [Finite 100] = BFinite 100
   \<and> isNegative (balanceDelta (BFinite 80) [Finite 100])
   \<and> indicator False False (BFinite 80) [Finite 100] = ''mdi-menu-down''
   \<and> balanceClass False False (BFinite 80) [Finite 100] = ''rotki-red lighten-1''
   \<and> isNegative (balanceDelta BNegZero [Finite 100])"
proof -
  have l: "isLoading True False" and n: "\<not> isLoading False False"
    by (simp_all add: isLoading_def)
  have s: "startingValue [Finite 100] = BFinite 100"
    by (simp add: startingValue_Cons)
  from l n s
    indicator_and_class [of True False "BFinite 80" "[Finite 100]" 80 100]
    indicator_and_class [of False False "BFinite 80" "[Finite 100]" 80 100]
    indicator_and_class [of False False BNegZero "[Finite 100]" 0 100]
  show ?thesis by simp
qed

theorem series_fetch_in_flight_counterexample:
  "seriesFetchInFlight (premiumWatcher sampleStores)
   \<and> \<not> isLoading False False
   \<and> indicator False False (BFinite 80) [Finite 100] = ''mdi-menu-down''
   \<and> balanceClass False False (BFinite 80) [Finite 100] = ''rotki-red lighten-1''"
  by (simp add: seriesFetchInFlight_def premiumWatcher_def fetchNetValue_def sampleStores_def
      isLoading_def indicator_def balanceClass_def balanceDelta_def startingValue_Cons)

lemma fontScale_le_one: "fontScale digits \<le> 1"
  by (simp add: fontScale_def)

lemma fontScale_antimono:
  assumes "d1 \<le> d2"
  shows "fontScale d2 \<le> fontScale d1"
proof (cases "d1 = 0")
  case True
  then show ?thesis by (simp add: fontScale_def)
next
  case False
  with assms have p: "0 < d1" "0 < d2" by auto
  with assms have "(12 :: rat) / of_nat d2 \<le> 12 / of_nat d1"
    by (simp add: frac_le)
  then have "min (1 :: rat) (12 / of_nat d2) \<le> min 1 (12 / of_nat d1)"
    by (intro min.mono) simp_all
  with p show ?thesis
    by (simp add: fontScale_def)
qed

lemma removeChar_twice:
  "removeChar c (removeChar d str) = filter (\<lambda>x. x \<noteq> d \<and> x \<noteq> c) str"
  by (simp add: removeChar_def)

text \<open>
  Claim C8. The font-scale factor does not grow with the digit count and is at most 1;
  the digit count of the panel is the number of characters of the formatted total that
  are neither a decimal point nor a comma.
\<close>

theorem font_scale_monotone:
  "(d1 \<le> d2 \<longrightarrow> fontScale d2 \<le> fontScale d1)
   \<and> fontScale d \<le> 1
   \<and> adjustedTotalNetWorthFontSize totalNetWorth floatingPrecision \<le> 1
   \<and> adjustedTotalNetWorthFontSize totalNetWorth floatingPrecision =
       fontScale (length (filter (\<lambda>c. c \<noteq> CHR ''.'' \<and> c \<noteq> CHR '','')
         (toFormat floatingPrecision totalNetWorth)))"
  by (simp add: fontScale_antimono fontScale_le_one adjustedTotalNetWorthFontSize_def
      fontDigits_def removeChar_twice del: toFormat.simps)

theorem font_scale_monotone_witness:
  "(12 :: nat) \<le> 24 \<and> fontScale 24 \<le> fontScale 12 \<and> fontScale 24 = 1 / 2
   \<and> fontScale 12 = 1"
  using font_scale_monotone [of 12 24 0 BNaN 0]
  by (simp add: fontScale_def)

section \<open>Properties of the time frame, the mount hook and the premium watcher\<close>

text \<open>
  Claim C4. \<open>setTimeframe\<close> called with the sentinel \<open>REMEMBER\<close> fails with an assertion
  error, in every state of the stores. Whenever \<open>setTimeframe\<close> succeeds, its argument was
  not the sentinel, and the argument is what the session's time frame and the last known
  time frame hold afterwards: the sentinel is never written to the selection that the
  window resolution reads.
\<close>

theorem setTimeframe_remember:
  "setTimeframe REMEMBER s = Inl AssertionError
   \<and> (setTimeframe val s = Inr s' \<longrightarrow>
        val \<noteq> REMEMBER \<and> timeframe s' = val \<and> lastKnownTimeframe s' = val)
   \<and> (val \<noteq> REMEMBER \<longrightarrow>
        setTimeframe val s = Inr (s\<lparr>timeframe := val, lastKnownTimeframe := val\<rparr>))"
  by (auto simp: setTimeframe_def assert_def split: if_splits)

theorem setTimeframe_remember_witness:
  "setTimeframe REMEMBER sampleStores = Inl AssertionError
   \<and> Period TWO_WEEKS \<noteq> REMEMBER
   \<and> setTimeframe (Period TWO_WEEKS) sampleStores =
       Inr (sampleStores\<lparr>timeframe := Period TWO_WEEKS,
                          lastKnownTimeframe := Period TWO_WEEKS\<rparr>)
   \<and> timeframe (sampleStores\<lparr>timeframe := Period TWO_WEEKS,
                               lastKnownTimeframe := Period TWO_WEEKS\<rparr>) = Period TWO_WEEKS"
  using setTimeframe_remember [of sampleStores "Period TWO_WEEKS"
      "sampleStores\<lparr>timeframe := Period TWO_WEEKS, lastKnownTimeframe := Period TWO_WEEKS\<rparr>"]
  by simp

text \<open>
  Claim C5, as amended. The claim's order, the downgrade before any data fetch, does not
  hold: the framework renders the component before it calls the mounted hook, and the
  first render, unless the panel is loading, has already asked for the series of the
  window selected at that time. What holds is this. The mounted hook leaves the stores
  as they are when the user is premium or the selected time frame is allowed, and
  otherwise sets the session's time frame to the two-week window; it asks for no series
  and issues no fetch itself. After mounting, the selection is the two-week window or
  the one it was, and the series requested by the first render is the one of the
  selection as it was before the hook.
\<close>

theorem onMounted_downgrade:
  "onMounted isPeriodAllowed s =
     (if premium s \<or> isPeriodAllowed (timeframe s) then s
      else s\<lparr>timeframe := Period TWO_WEEKS\<rparr>)
   \<and> timeframe (onMounted isPeriodAllowed s) =
     (if premium s \<or> isPeriodAllowed (timeframe s) then timeframe s else Period TWO_WEEKS)
   \<and> netValueFetches (onMounted isPeriodAllowed s) = netValueFetches s
   \<and> seriesRequests (onMounted isPeriodAllowed s) = seriesRequests s
   \<and> timeframe (mountComponent isPeriodAllowed ethLoading btcLoading s) =
     (if premium s \<or> isPeriodAllowed (timeframe s) then timeframe s else Period TWO_WEEKS)
   \<and> seriesRequests (mountComponent isPeriodAllowed ethLoading btcLoading s) =
     seriesRequests s @ (if isLoading ethLoading btcLoading then [] else [timeframe s])
   \<and> netValueFetches (mountComponent isPeriodAllowed ethLoading btcLoading s) =
     netValueFetches s"
  by (simp add: onMounted_def mountComponent_def render_def timeframeData_def)

theorem mount_order_counterexample:
  "\<not> premium sampleStores
   \<and> \<not> onlyTwoWeeks (timeframe sampleStores)
   \<and> seriesRequests sampleStores = []
   \<and> seriesRequests (mountComponent onlyTwoWeeks False False sampleStores) =
       [Period (OtherPeriod ''All'')]
   \<and> timeframe (mountComponent onlyTwoWeeks False False sampleStores) = Period TWO_WEEKS"
  by (simp add: sampleStores_def onlyTwoWeeks_def mountComponent_def onMounted_def render_def
      timeframeData_def isLoading_def)

lemma setPremium_fetches: "netValueFetches (setPremium p s) = netValueFetches s"
  by (simp add: setPremium_def)

lemma flushWatchers_fetches:
  "netValueFetches (flushWatchers s) =
     (if watcherQueued s \<and> premium s \<noteq> watchedPremium s \<and> logged s
      then Suc (netValueFetches s) else netValueFetches s)"
  by (simp add: flushWatchers_def premiumWatcher_def fetchNetValue_def Let_def)

lemma step_logged:
  "e \<noteq> SetLogged True \<Longrightarrow> \<not> logged s \<Longrightarrow> \<not> logged (step e s)"
  by (cases e)
    (auto simp: setPremium_def setLogged_def flushWatchers_def premiumWatcher_def
      fetchNetValue_def Let_def)

lemma step_fetches_logged_out:
  "\<not> logged s \<Longrightarrow> netValueFetches (step e s) = netValueFetches s"
  by (cases e) (simp_all add: setPremium_fetches flushWatchers_fetches setLogged_def)

lemma run_logged_out:
  "\<forall>e \<in> set es. e \<noteq> SetLogged True \<Longrightarrow> \<not> logged s \<Longrightarrow>
   netValueFetches (run es s) = netValueFetches s"
proof (induction es arbitrary: s)
  case Nil
  then show ?case by simp
next
  case (Cons e es)
  from Cons.prems have "\<not> logged (step e s)"
    by (simp add: step_logged)
  with Cons.prems Cons.IH [of "step e s"] show ?case
    by (simp add: step_fetches_logged_out)
qed

text \<open>
  Claim C6, as amended. A change of the premium flag does not by itself trigger a
  refetch, also for a user who is logged in: the assignment issues no fetch, it only
  queues the watcher, and a change that is taken back before the scheduler's flush
  triggers none at all. What holds is this. When the queued watcher runs at the flush,
  it issues one fetch of the net-value series exactly when the flag then differs from
  the value the watcher saw last and the user is logged in at that moment; so one
  change of the flag from a settled state, followed by the flush, issues a fetch exactly
  when the user is logged in. As long as the user is not logged in, no sequence of
  changes and flushes issues a fetch.
\<close>

theorem premium_change_refetch:
  "netValueFetches (setPremium p s) = netValueFetches s
   \<and> netValueFetches (flushWatchers s) =
     (if watcherQueued s \<and> premium s \<noteq> watchedPremium s \<and> logged s
      then Suc (netValueFetches s) else netValueFetches s)
   \<and> netValueFetches (premiumWatcher s) =
     (if logged s then Suc (netValueFetches s) else netValueFetches s)
   \<and> (\<not> watcherQueued s \<and> watchedPremium s = premium s \<longrightarrow>
        netValueFetches (flushWatchers (setPremium p s)) =
          (if premium s \<noteq> p \<and> logged s then Suc (netValueFetches s)
           else netValueFetches s))
   \<and> ((\<forall>e \<in> set es. e \<noteq> SetLogged True) \<and> \<not> logged s \<longrightarrow>
        netValueFetches (run es s) = netValueFetches s)"
proof -
  have settled: "\<not> watcherQueued s \<and> watchedPremium s = premium s \<longrightarrow>
        netValueFetches (flushWatchers (setPremium p s)) =
          (if premium s \<noteq> p \<and> logged s then Suc (netValueFetches s)
           else netValueFetches s)"
    by (auto simp: flushWatchers_fetches setPremium_def)
  have watcher: "netValueFetches (premiumWatcher s) =
     (if logged s then Suc (netValueFetches s) else netValueFetches s)"
    by (simp add: premiumWatcher_def fetchNetValue_def)
  from settled watcher setPremium_fetches [of p s] flushWatchers_fetches [of s]
    run_logged_out [of es s]
  show ?thesis by blast
qed

theorem premium_change_refetch_witness:
  "\<not> watcherQueued sampleStores \<and> watchedPremium sampleStores = premium sampleStores
   \<and> logged sampleStores
   \<and> netValueFetches (flushWatchers (setPremium True sampleStores)) = 1
   \<and> \<not> logged (setLogged False sampleStores)
   \<and> netValueFetches (run [SetPremium True, Flush, SetPremium False, Flush]
        (setLogged False sampleStores)) = 0"
proof -
  have a: "\<not> watcherQueued sampleStores \<and> watchedPremium sampleStores = premium sampleStores"
    and l: "logged sampleStores" and p: "premium sampleStores \<noteq> True"
    and n: "netValueFetches sampleStores = 0"
    by (simp_all add: sampleStores_def)
  have b: "(\<forall>e \<in> set [SetPremium True, Flush, SetPremium False, Flush]. e \<noteq> SetLogged True)
      \<and> \<not> logged (setLogged False sampleStores)"
    and m: "netValueFetches (setLogged False sampleStores) = 0"
    by (simp_all add: setLogged_def sampleStores_def)
  from a l p n premium_change_refetch [of True sampleStores "[]"]
  have 1: "netValueFetches (flushWatchers (setPremium True sampleStores)) = 1"
    by simp
  from b m premium_change_refetch [of True "setLogged False sampleStores"
      "[SetPremium True, Flush, SetPremium False, Flush]"]
  have 2: "netValueFetches (run [SetPremium True, Flush, SetPremium False, Flush]
        (setLogged False sampleStores)) = 0"
    by simp
  from a l b 1 2 show ?thesis by blast
qed

theorem premium_change_counterexample:
  "logged sampleStores
   \<and> premium (setPremium True sampleStores) \<noteq> premium sampleStores
   \<and> premium (setPremium False (setPremium True sampleStores)) \<noteq>
       premium (setPremium True sampleStores)
   \<and> netValueFetches (run [SetPremium True, SetPremium False, Flush] sampleStores) =
       netValueFetches sampleStores"
  by (simp add: sampleStores_def setPremium_def flushWatchers_def)

section \<open>Properties of the statistics client\<close>

lemma send_invalid:
  "\<not> validate (status (server req)) \<Longrightarrow>
   send server validate req = Inl (RequestError (status (server req)))"
  by (simp add: send_def)

lemma send_valid:
  "validate (status (server req)) \<Longrightarrow> send server validate req = Inr (server req)"
  by (simp add: send_def)

text \<open>
  Claim C7. Each of the five operations fails with the request error, whatever the
  unwrapping would give, when the status policy refuses the status of the response.
  With an accepted status, every operation unwraps the response and passes on the error
  of the unwrapping; on an unwrapped result the timed-balances, the location-distribution
  and the asset-distribution operations return its typed value, or fail with a schema
  validation error when the result has not the schema's shape, while the renderer
  operation returns the unwrapped result as it is and does not depend on any schema.
\<close>

theorem statistics_client_validation:
  fixes env :: "('tb, 'ld, 'tab) services"
  shows
  "(\<not> validStatus env (status (backend env (netValueRequest env includeNfts))) \<longrightarrow>
      queryNetValueData env includeNfts =
        Inl (RequestError (status (backend env (netValueRequest env includeNfts)))))
   \<and> (\<not> validStatus env (status (backend env (timedBalancesRequest env asset from to))) \<longrightarrow>
      queryTimedBalancesData env asset from to =
        Inl (RequestError (status (backend env (timedBalancesRequest env asset from to)))))
   \<and> (\<not> validStatus env (status (backend env (locationDistributionRequest env))) \<longrightarrow>
      queryLatestLocationValueDistribution env =
        Inl (RequestError (status (backend env (locationDistributionRequest env)))))
   \<and> (\<not> validStatus env (status (backend env (assetDistributionRequest env))) \<longrightarrow>
      queryLatestAssetValueDistribution env =
        Inl (RequestError (status (backend env (assetDistributionRequest env)))))
   \<and> (\<not> validStatus env (status (backend env rendererRequest)) \<longrightarrow>
      queryStatisticsRenderer env =
        Inl (RequestError (status (backend env rendererRequest))))
   \<and> (validStatus env (status (backend env (netValueRequest env includeNfts))) \<longrightarrow>
      queryNetValueData env includeNfts =
        handleResponse env (backend env (netValueRequest env includeNfts)))
   \<and> (validStatus env (status (backend env (timedBalancesRequest env asset from to))) \<longrightarrow>
      queryTimedBalancesData env asset from to =
        (case handleResponse env (backend env (timedBalancesRequest env asset from to)) of
           Inl e \<Rightarrow> Inl e
         | Inr result \<Rightarrow>
             (case TimedBalances env result of
                None \<Rightarrow> Inl SchemaValidationError | Some v \<Rightarrow> Inr v)))
   \<and> (validStatus env (status (backend env (locationDistributionRequest env))) \<longrightarrow>
      queryLatestLocationValueDistribution env =
        (case handleResponse env (backend env (locationDistributionRequest env)) of
           Inl e \<Rightarrow> Inl e
         | Inr result \<Rightarrow>
             (case LocationData env result of
                None \<Rightarrow> Inl SchemaValidationError | Some v \<Rightarrow> Inr v)))
   \<and> (validStatus env (status (backend env (assetDistributionRequest env))) \<longrightarrow>
      queryLatestAssetValueDistribution env =
        (case handleResponse env (backend env (assetDistributionRequest env)) of
           Inl e \<Rightarrow> Inl e
         | Inr result \<Rightarrow>
             (case TimedAssetBalances env result of
                None \<Rightarrow> Inl SchemaValidationError | Some v \<Rightarrow> Inr v)))
   \<and> (validStatus env (status (backend env rendererRequest)) \<longrightarrow>
      queryStatisticsRenderer env = handleResponse env (backend env rendererRequest))
   \<and> queryStatisticsRenderer
        (env\<lparr>TimedBalances := tb, LocationData := ld, TimedAssetBalances := tab\<rparr>) =
      queryStatisticsRenderer env"
  by (simp add: queryNetValueData_def queryTimedBalancesData_def
      queryLatestLocationValueDistribution_def queryLatestAssetValueDistribution_def
      queryStatisticsRenderer_def send_invalid send_valid parse_def
      cong: sum.case_cong)

theorem statistics_client_validation_witness:
  "queryNetValueData
     (sampleServices (\<lambda>p. p \<noteq> ''/statistics/balance'' \<and> p \<noteq> ''/statistics/renderer''))
     True = Inl (RequestError 500)
   \<and> queryLatestLocationValueDistribution
     (sampleServices (\<lambda>p. p \<noteq> ''/statistics/balance'' \<and> p \<noteq> ''/statistics/renderer'')) =
     Inl (RequestError 500)
   \<and> queryLatestAssetValueDistribution
     (sampleServices (\<lambda>p. p \<noteq> ''/statistics/balance'' \<and> p \<noteq> ''/statistics/renderer'')) =
     Inl (RequestError 500)
   \<and> queryTimedBalancesData
     (sampleServices (\<lambda>p. p \<noteq> ''/statistics/balance'' \<and> p \<noteq> ''/statistics/renderer''))
     ''ETH'' 0 10 = Inr []
   \<and> queryStatisticsRenderer
     (sampleServices (\<lambda>p. p \<noteq> ''/statistics/balance'' \<and> p \<noteq> ''/statistics/renderer'')) =
     Inr (JArray [])
   \<and> queryTimedBalancesData
     (sampleServices (\<lambda>p. p = ''/statistics/balance'' \<or> p = ''/statistics/renderer''))
     ''ETH'' 0 10 = Inl (RequestError 500)
   \<and> queryStatisticsRenderer
     (sampleServices (\<lambda>p. p = ''/statistics/balance'' \<or> p = ''/statistics/renderer'')) =
     Inl (RequestError 500)
   \<and> queryNetValueData
     (sampleServices (\<lambda>p. p = ''/statistics/balance'' \<or> p = ''/statistics/renderer''))
     True = Inr (JArray [])
   \<and> queryLatestLocationValueDistribution
     (sampleServices (\<lambda>p. p = ''/statistics/balance'' \<or> p = ''/statistics/renderer'')) =
     Inl SchemaValidationError
   \<and> queryLatestAssetValueDistribution
     (sampleServices (\<lambda>p. p = ''/statistics/balance'' \<or> p = ''/statistics/renderer'')) =
     Inr []"
  using
    statistics_client_validation
      [of "sampleServices (\<lambda>p. p \<noteq> ''/statistics/balance'' \<and> p \<noteq> ''/statistics/renderer'')"
        True "''ETH''" 0 10]
    statistics_client_validation
      [of "sampleServices (\<lambda>p. p = ''/statistics/balance'' \<or> p = ''/statistics/renderer'')"
        True "''ETH''" 0 10]
  by (simp add: sampleServices_def sampleBackend_def netValueRequest_def
      timedBalancesRequest_def locationDistributionRequest_def assetDistributionRequest_def
      rendererRequest_def)

end
